theory Spec2Isabelle
  imports Complex_Main
begin

section \<open>Forming limit curve predictor (\<^verbatim>\<open>src/bin/FLD.py\<close>)\<close>

text \<open>
  The program computes four characteristic points of a forming limit curve (TE, PS, IM,
  BI) from material parameters and extends the curve linearly beyond its two end
  segments. This theory embeds class \<^verbatim>\<open>FLCPredictor\<close> method by method.

  Numbers. Python floats are modelled as the real numbers they approximate: every
  formula below is the source's formula read in exact real arithmetic, so rounding, NaN
  and infinities are outside the model. A decimal literal of the source is the rational
  it is written as.
\<close>

subsection \<open>Values and errors\<close>

text \<open>
  The only expression of the source whose result need not be a float is the power
  \<^verbatim>\<open>x ** y\<close> with a fractional exponent: on a negative float base Python 3 returns a
  \<^verbatim>\<open>complex\<close> object, which then spreads through every arithmetic operation it meets.
  A value is therefore either a float or a complex object; of the latter only its kind is
  tracked.
\<close>

datatype pynum = PyFloat real | PyComplex

text \<open>The exceptions the modelled methods can raise.\<close>

datatype py_error = ZeroDivisionError | IndexError

text \<open>A point as the \<^verbatim>\<open>calculate_*_point\<close> methods return it: a dict with the keys
  \<^verbatim>\<open>'eps2'\<close> and \<^verbatim>\<open>'eps1'\<close>.\<close>

record strain_point =
  eps2 :: pynum
  eps1 :: pynum

text \<open>Float division \<^verbatim>\<open>a / b\<close>, which raises on a zero divisor.\<close>

definition py_div :: "real \<Rightarrow> real \<Rightarrow> py_error + real" where
  "py_div a b = (if b = 0 then Inl ZeroDivisionError else Inr (a / b))"

subsection \<open>The four point formulas\<close>

text \<open>
  \<^verbatim>\<open>calculate_TE_point(self, A80, r, t)\<close>. The locals of the method are given one
  definition each, under the source's names, so that the discarded \<^verbatim>\<open>eps3_TE\<close> can be
  spoken about. They are the values of the locals when both powers are floats, that is
  for \<open>0 \<le> A80\<close> and \<open>0 \<le> r\<close> (\<^verbatim>\<open>0.0 ** 0.567\<close> is \<^verbatim>\<open>0.0\<close>, as \<open>0 powr y\<close> is \<open>0\<close>).
\<close>

definition term_A :: "real \<Rightarrow> real" where
  "term_A A80 = 0.0626 * A80 powr 0.567"

definition term_t :: "real \<Rightarrow> real \<Rightarrow> real" where
  "term_t A80 t = (t - 1) * (0.12 - 0.0024 * A80)"

definition SVL_t :: "real \<Rightarrow> real \<Rightarrow> real" where
  "SVL_t A80 t = term_A A80 + term_t A80 t"

definition strain_ratio :: "real \<Rightarrow> real" where
  "strain_ratio r = 0.797 * r powr 0.701"

definition denominator :: "real \<Rightarrow> real" where
  "denominator r = sqrt (1 + strain_ratio r ^ 2)"

definition eps3_TE :: "real \<Rightarrow> real \<Rightarrow> real \<Rightarrow> real" where
  "eps3_TE A80 r t = - SVL_t A80 t / denominator r"

definition eps2_TE :: "real \<Rightarrow> real \<Rightarrow> real \<Rightarrow> real" where
  "eps2_TE A80 r t = - SVL_t A80 t * strain_ratio r / denominator r"

definition eps1_TE :: "real \<Rightarrow> real \<Rightarrow> real \<Rightarrow> real" where
  "eps1_TE A80 r t = (1 + strain_ratio r) * SVL_t A80 t / denominator r"

text \<open>
  The method itself. With a negative \<open>A80\<close> the local \<^verbatim>\<open>SVL_t\<close> is complex, with a negative
  \<open>r\<close> the locals \<^verbatim>\<open>strain_ratio\<close> and \<^verbatim>\<open>denominator\<close> are; both returned components are
  quotients of these, so both are complex objects then. The divisor is a NumPy scalar
  (the result of \<^verbatim>\<open>np.sqrt\<close>), whose division does not raise; in the float case it is at
  least 1.
\<close>

definition calculate_TE_point :: "real \<Rightarrow> real \<Rightarrow> real \<Rightarrow> strain_point" where
  "calculate_TE_point A80 r t =
     (if A80 < 0 \<or> r < 0 then \<lparr>eps2 = PyComplex, eps1 = PyComplex\<rparr>
      else \<lparr>eps2 = PyFloat (eps2_TE A80 r t), eps1 = PyFloat (eps1_TE A80 r t)\<rparr>)"

text \<open>\<^verbatim>\<open>calculate_PS_point(self, A80, t)\<close>.\<close>

definition calculate_PS_point :: "real \<Rightarrow> real \<Rightarrow> strain_point" where
  "calculate_PS_point A80 t =
     (let eps1_PS = 0.0084 * A80 + 0.0017 * A80 * (t - 1)
      in \<lparr>eps2 = PyFloat 0.0, eps1 = PyFloat eps1_PS\<rparr>)"

text \<open>
  \<^verbatim>\<open>calculate_BI_point(self, A80, t, A80min=None)\<close>. The first statement,
  \<^verbatim>\<open>A80min = A80min or A80\<close>, replaces a missing and a zero \<open>A80min\<close> alike.
\<close>

definition A80min_or_A80 :: "real option \<Rightarrow> real \<Rightarrow> real" where
  "A80min_or_A80 A80min A80 =
     (case A80min of None \<Rightarrow> A80 | Some v \<Rightarrow> if v = 0 then A80 else v)"

text \<open>The two branches of the thickness test: the value of the \<^verbatim>\<open>if\<close> branch (thin sheet)
  and the local \<^verbatim>\<open>eps1_BI_1mm\<close> that the \<^verbatim>\<open>else\<close> branch returns.\<close>

definition eps1_BI_thin :: "real \<Rightarrow> real \<Rightarrow> real" where
  "eps1_BI_thin A80min t = 0.00215 * A80min + 0.25 + 0.00285 * A80min * t"

definition eps1_BI_1mm :: "real \<Rightarrow> real" where
  "eps1_BI_1mm A80min = 0.005 * A80min + 0.25"

definition calculate_BI_point :: "real \<Rightarrow> real \<Rightarrow> real option \<Rightarrow> py_error + strain_point" where
  "calculate_BI_point A80 t A80min =
     (let A80min = A80min_or_A80 A80min A80
      in case py_div (0.00215 * A80min) (0.6 + 0.00285 * A80min) of
           Inl e \<Rightarrow> Inl e
         | Inr q \<Rightarrow>
             (let t_trans = 1.5 - q;
                  eps1_BI = (if t \<le> t_trans then eps1_BI_thin A80min t
                             else eps1_BI_1mm A80min)
              in Inr \<lparr>eps2 = PyFloat eps1_BI, eps1 = PyFloat eps1_BI\<rparr>))"

text \<open>\<^verbatim>\<open>calculate_IM_point(self, A80, t)\<close>, with the same two branches: the value of the
  \<^verbatim>\<open>if\<close> branch and the local \<^verbatim>\<open>base_eps_IM1\<close>.\<close>

definition eps1_IM_thin :: "real \<Rightarrow> real \<Rightarrow> real" where
  "eps1_IM_thin A80 t = 0.0062 * A80 + 0.18 + 0.0027 * A80 * (t - 1)"

definition base_eps_IM1 :: "real \<Rightarrow> real" where
  "base_eps_IM1 A80 = 0.0062 * A80 + 0.18"

definition calculate_IM_point :: "real \<Rightarrow> real \<Rightarrow> py_error + strain_point" where
  "calculate_IM_point A80 t =
     (case py_div (0.00215 * A80) (0.6 + 0.00285 * A80) of
        Inl e \<Rightarrow> Inl e
      | Inr q \<Rightarrow>
          (let t_trans = 1.5 - q;
               eps1_IM = (if t \<le> t_trans then eps1_IM_thin A80 t else base_eps_IM1 A80)
           in Inr \<lparr>eps2 = PyFloat (0.75 * eps1_IM), eps1 = PyFloat eps1_IM\<rparr>))"

text \<open>The transition thickness, the local \<^verbatim>\<open>t_trans\<close> of both methods, where the divisor
  is not zero.\<close>

definition t_trans :: "real \<Rightarrow> real" where
  "t_trans a = 1.5 - (0.00215 * a) / (0.6 + 0.00285 * a)"

subsection \<open>The model object\<close>

text \<open>
  The attributes \<^verbatim>\<open>__init__\<close> stores, and the object once \<^verbatim>\<open>_calculate_all_points\<close> has
  added the four points. The fields are the attributes \<^verbatim>\<open>self.A80\<close>, \<^verbatim>\<open>self.r\<close>, ...
\<close>

record material =
  self_A80 :: real
  self_r0 :: real
  self_r45 :: real
  self_r90 :: real
  self_r :: real
  self_t :: real
  self_A80min :: real

record FLCPredictor = material +
  self_TE :: strain_point
  self_PS :: strain_point
  self_IM :: strain_point
  self_BI :: strain_point

text \<open>\<^verbatim>\<open>_calculate_all_points(self)\<close>: TE, PS, IM, BI in this order; an exception of a
  later method leaves no object behind.\<close>

definition calculate_all_points :: "material \<Rightarrow> py_error + FLCPredictor" where
  "calculate_all_points self =
     (let TE = calculate_TE_point (self_A80 self) (self_r self) (self_t self);
          PS = calculate_PS_point (self_A80 self) (self_t self)
      in case calculate_IM_point (self_A80 self) (self_t self) of
           Inl e \<Rightarrow> Inl e
         | Inr IM \<Rightarrow>
            (case calculate_BI_point (self_A80 self) (self_t self) (Some (self_A80min self)) of
               Inl e \<Rightarrow> Inl e
             | Inr BI \<Rightarrow>
                 Inr \<lparr>self_A80 = self_A80 self, self_r0 = self_r0 self,
                      self_r45 = self_r45 self, self_r90 = self_r90 self,
                      self_r = self_r self, self_t = self_t self,
                      self_A80min = self_A80min self,
                      self_TE = TE, self_PS = PS, self_IM = IM, self_BI = BI\<rparr>))"

text \<open>\<^verbatim>\<open>__init__(self, A80, r0, r45, r90, t, A80min=None)\<close>. No argument is checked.\<close>

definition FLCPredictor_init ::
  "real \<Rightarrow> real \<Rightarrow> real \<Rightarrow> real \<Rightarrow> real \<Rightarrow> real option \<Rightarrow> py_error + FLCPredictor" where
  "FLCPredictor_init A80 r0 r45 r90 t A80min =
     calculate_all_points
       \<lparr>self_A80 = A80, self_r0 = r0, self_r45 = r45, self_r90 = r90,
        self_r = (r0 + 2 * r45 + r90) / 4, self_t = t,
        self_A80min = (case A80min of None \<Rightarrow> A80 | Some v \<Rightarrow> v)\<rparr>"

text \<open>
  \<^verbatim>\<open>get_FLC_points(self)\<close>: a dict, whose insertion order Python keeps, of the pairs
  \<^verbatim>\<open>(eps2, eps1)\<close>. The method gets the object and could assign to its attributes, so the
  model returns the object as the call leaves it beside the dict.
\<close>

definition get_FLC_points ::
  "FLCPredictor \<Rightarrow> (string \<times> pynum \<times> pynum) list \<times> FLCPredictor" where
  "get_FLC_points self =
     ([(''TE'', (eps2 (self_TE self), eps1 (self_TE self))),
       (''PS'', (eps2 (self_PS self), eps1 (self_PS self))),
       (''IM'', (eps2 (self_IM self), eps1 (self_IM self))),
       (''BI'', (eps2 (self_BI self), eps1 (self_BI self)))],
      self)"

subsection \<open>The curve extrapolator\<close>

text \<open>\<^verbatim>\<open>round_down_to_nearest_tenth\<close> and \<^verbatim>\<open>round_up_to_nearest_tenth\<close>.\<close>

definition round_down_to_nearest_tenth :: "real \<Rightarrow> real" where
  "round_down_to_nearest_tenth x = real_of_int \<lfloor>x * 10\<rfloor> / 10"

definition round_up_to_nearest_tenth :: "real \<Rightarrow> real" where
  "round_up_to_nearest_tenth x = real_of_int \<lceil>x * 10\<rceil> / 10"

text \<open>
  \<^verbatim>\<open>np.linspace(start, stop, num)\<close> is NumPy's, not this program's. Its documented result
  is taken here: \<open>num\<close> samples \<open>start + i * step\<close> with \<open>step = (stop - start) / (num - 1)\<close>,
  the last of which is \<open>stop\<close>.
\<close>

definition linspace :: "real \<Rightarrow> real \<Rightarrow> nat \<Rightarrow> real list" where
  "linspace start stop num =
     map (\<lambda>i. start + real i * ((stop - start) / real (num - 1))) [0..<num]"

text \<open>List indexing \<^verbatim>\<open>xs[i]\<close>: a negative index counts from the end, an index out of range
  raises.\<close>

definition py_getitem :: "'a list \<Rightarrow> int \<Rightarrow> py_error + 'a" where
  "py_getitem xs i =
     (if 0 \<le> i \<and> i < int (length xs) then Inr (xs ! nat i)
      else if i < 0 \<and> - int (length xs) \<le> i then Inr (xs ! nat (int (length xs) + i))
      else Inl IndexError)"

text \<open>Sequencing of steps that may raise.\<close>

definition and_then :: "py_error + 'a \<Rightarrow> ('a \<Rightarrow> py_error + 'b) \<Rightarrow> py_error + 'b" where
  "and_then m f = (case m of Inl e \<Rightarrow> Inl e | Inr v \<Rightarrow> f v)"

text \<open>
  \<^verbatim>\<open>extrapolate_FLC_dynamically(self, x_vals, y_vals)\<close>; it returns
  \<^verbatim>\<open>(x_ext_left, y_ext_left), (x_ext_right, y_ext_right)\<close>. The two slopes are conditional
  expressions: the quotient, a float division that raises on a zero divisor, is evaluated
  only where the test \<^verbatim>\<open>x_PS != x_TE\<close> (\<^verbatim>\<open>x_BI != x_IM\<close>) holds, and the slope is 0 otherwise.
\<close>

definition extrapolate_FLC_dynamically ::
  "real list \<Rightarrow> real list \<Rightarrow> py_error + ((real list \<times> real list) \<times> (real list \<times> real list))" where
  "extrapolate_FLC_dynamically x_vals y_vals =
     and_then (py_getitem x_vals 0) (\<lambda>x_TE.
     and_then (py_getitem y_vals 0) (\<lambda>y_TE.
     and_then (py_getitem x_vals 1) (\<lambda>x_PS.
     and_then (py_getitem y_vals 1) (\<lambda>y_PS.
     and_then (if x_PS \<noteq> x_TE then py_div (y_PS - y_TE) (x_PS - x_TE) else Inr 0)
       (\<lambda>slope_left.
       let intercept_left = y_TE - slope_left * x_TE;
           left_limit = round_down_to_nearest_tenth x_TE - 0.1;
           x_ext_left = linspace left_limit x_TE 50;
           y_ext_left = map (\<lambda>x. slope_left * x + intercept_left) x_ext_left
       in
     and_then (py_getitem x_vals (- 2)) (\<lambda>x_IM.
     and_then (py_getitem y_vals (- 2)) (\<lambda>y_IM.
     and_then (py_getitem x_vals (- 1)) (\<lambda>x_BI.
     and_then (py_getitem y_vals (- 1)) (\<lambda>y_BI.
     and_then (if x_BI \<noteq> x_IM then py_div (y_BI - y_IM) (x_BI - x_IM) else Inr 0)
       (\<lambda>slope_right.
       let intercept_right = y_BI - slope_right * x_BI;
           right_limit = round_up_to_nearest_tenth x_BI + 0.1;
           x_ext_right = linspace x_BI right_limit 50;
           y_ext_right = map (\<lambda>x. slope_right * x + intercept_right) x_ext_right
       in Inr ((x_ext_left, y_ext_left), (x_ext_right, y_ext_right))))))))))))"

section \<open>Properties\<close>

subsection \<open>Auxiliary facts\<close>

lemma divisor_nonzero: "0 \<le> a \<Longrightarrow> 0.6 + 0.00285 * a \<noteq> (0::real)"
proof -
  assume "0 \<le> a"
  then have "0 \<le> 0.00285 * a" by simp
  then show ?thesis by linarith
qed

lemma calculate_IM_point_Inr:
  assumes "0.6 + 0.00285 * A80 \<noteq> 0"
  shows "calculate_IM_point A80 t =
     Inr (let eps1_IM = (if t \<le> t_trans A80 then eps1_IM_thin A80 t else base_eps_IM1 A80)
          in \<lparr>eps2 = PyFloat (0.75 * eps1_IM), eps1 = PyFloat eps1_IM\<rparr>)"
  using assms by (simp add: calculate_IM_point_def py_div_def t_trans_def Let_def)

lemma calculate_BI_point_Inr:
  assumes "0.6 + 0.00285 * A80min_or_A80 A80min A80 \<noteq> 0"
  shows "calculate_BI_point A80 t A80min =
     Inr (let a = A80min_or_A80 A80min A80;
              eps1_BI = (if t \<le> t_trans a then eps1_BI_thin a t else eps1_BI_1mm a)
          in \<lparr>eps2 = PyFloat eps1_BI, eps1 = PyFloat eps1_BI\<rparr>)"
  using assms by (simp add: calculate_BI_point_def py_div_def t_trans_def Let_def)

lemma A80min_or_A80_stored:
  "A80min_or_A80 (Some (case A80min of None \<Rightarrow> A80 | Some v \<Rightarrow> v)) A80 = A80min_or_A80 A80min A80"
  by (simp add: A80min_or_A80_def split: option.splits)

lemma FLCPredictor_init_Inr:
  assumes "0.6 + 0.00285 * A80 \<noteq> 0" and "0.6 + 0.00285 * A80min_or_A80 A80min A80 \<noteq> 0"
  shows "FLCPredictor_init A80 r0 r45 r90 t A80min =
     Inr \<lparr>self_A80 = A80, self_r0 = r0, self_r45 = r45, self_r90 = r90,
          self_r = (r0 + 2 * r45 + r90) / 4, self_t = t,
          self_A80min = (case A80min of None \<Rightarrow> A80 | Some v \<Rightarrow> v),
          self_TE = calculate_TE_point A80 ((r0 + 2 * r45 + r90) / 4) t,
          self_PS = calculate_PS_point A80 t,
          self_IM = projr (calculate_IM_point A80 t),
          self_BI = projr (calculate_BI_point A80 t A80min)\<rparr>"
proof -
  let ?s = "Some (case A80min of None \<Rightarrow> A80 | Some v \<Rightarrow> v)"
  have bi: "calculate_BI_point A80 t ?s = calculate_BI_point A80 t A80min"
    by (simp add: calculate_BI_point_def A80min_or_A80_stored)
  obtain p where p: "calculate_IM_point A80 t = Inr p"
    using calculate_IM_point_Inr [OF assms(1)] by simp
  obtain q where q: "calculate_BI_point A80 t A80min = Inr q"
    using calculate_BI_point_Inr [OF assms(2)] by simp
  show ?thesis
    by (simp add: FLCPredictor_init_def calculate_all_points_def bi p q)
qed

lemma A80min_or_A80_nonneg:
  assumes "0 < A80" and "case A80min of None \<Rightarrow> True | Some v \<Rightarrow> 0 \<le> v"
  shows "0 < A80min_or_A80 A80min A80"
  using assms by (auto simp: A80min_or_A80_def split: option.splits)

lemma denominator_pos: "0 < denominator r"
proof -
  have "0 < 1 + (strain_ratio r)\<^sup>2"
    by (simp add: add_pos_nonneg)
  then show ?thesis
    by (simp add: denominator_def)
qed

lemma calculate_TE_point_eq:
  assumes "0 \<le> A80" and "0 \<le> r"
  shows "calculate_TE_point A80 r t =
     (let SVL = 0.0626 * A80 powr 0.567 + (t - 1) * (0.12 - 0.0024 * A80);
          ratio = 0.797 * r powr 0.701;
          denom = sqrt (1 + ratio\<^sup>2)
      in \<lparr>eps2 = PyFloat (- SVL * ratio / denom),
          eps1 = PyFloat ((1 + ratio) * SVL / denom)\<rparr>)"
proof -
  have "\<not> (A80 < 0 \<or> r < 0)"
    using assms by simp
  then have c: "calculate_TE_point A80 r t =
      \<lparr>eps2 = PyFloat (eps2_TE A80 r t), eps1 = PyFloat (eps1_TE A80 r t)\<rparr>"
    by (simp add: calculate_TE_point_def)
  show ?thesis
    unfolding c eps2_TE_def eps1_TE_def SVL_t_def term_A_def term_t_def strain_ratio_def
      denominator_def Let_def
    by (rule refl)
qed

lemma calculate_PS_point_eq:
  "calculate_PS_point A80 t =
     \<lparr>eps2 = PyFloat 0, eps1 = PyFloat (0.0084 * A80 + 0.0017 * A80 * (t - 1))\<rparr>"
  by (simp add: calculate_PS_point_def)

lemma length_linspace: "length (linspace a b n) = n"
  by (simp add: linspace_def)

lemma nth_linspace: "i < n \<Longrightarrow> linspace a b n ! i = a + real i * ((b - a) / real (n - 1))"
  by (simp add: linspace_def)

lemma hd_linspace:
  assumes "0 < n"
  shows "hd (linspace a b n) = a"
proof -
  have "linspace a b n \<noteq> []"
    using assms length_linspace [of a b n] by auto
  then have "hd (linspace a b n) = linspace a b n ! 0"
    by (rule hd_conv_nth)
  then show ?thesis
    using assms by (simp add: nth_linspace)
qed

lemma last_linspace:
  assumes "1 < n"
  shows "last (linspace a b n) = b"
proof -
  have "linspace a b n \<noteq> []"
    using assms length_linspace [of a b n] by auto
  then have "last (linspace a b n) = linspace a b n ! (n - 1)"
    by (simp add: last_conv_nth length_linspace)
  also have "\<dots> = a + real (n - 1) * ((b - a) / real (n - 1))"
    using assms by (simp add: nth_linspace)
  also have "\<dots> = b"
    using assms by simp
  finally show ?thesis .
qed

lemma step_linspace:
  assumes "Suc i < n"
  shows "linspace a b n ! Suc i - linspace a b n ! i = (b - a) / real (n - 1)"
proof -
  define s where "s = (b - a) / real (n - 1)"
  have "linspace a b n ! Suc i = a + real (Suc i) * s"
    using assms by (simp only: nth_linspace s_def)
  moreover have "linspace a b n ! i = a + real i * s"
    using assms by (simp add: nth_linspace s_def)
  ultimately have "linspace a b n ! Suc i - linspace a b n ! i = s"
    by (simp add: algebra_simps)
  then show ?thesis
    by (simp only: s_def)
qed

lemma py_getitem_neg:
  "0 < k \<Longrightarrow> k \<le> length xs \<Longrightarrow> py_getitem xs (- int k) = Inr (xs ! (length xs - k))"
  by (simp add: py_getitem_def nat_diff_distrib')

lemma extrapolate_FLC_dynamically_Inr:
  assumes "2 \<le> length x_vals" and "2 \<le> length y_vals"
  shows "extrapolate_FLC_dynamically x_vals y_vals =
    Inr (let x_TE = x_vals ! 0; y_TE = y_vals ! 0; x_PS = x_vals ! 1; y_PS = y_vals ! 1;
             slope_left = (if x_PS \<noteq> x_TE then (y_PS - y_TE) / (x_PS - x_TE) else 0);
             x_ext_left = linspace (round_down_to_nearest_tenth x_TE - 0.1) x_TE 50;
             x_IM = x_vals ! (length x_vals - 2); y_IM = y_vals ! (length y_vals - 2);
             x_BI = x_vals ! (length x_vals - 1); y_BI = y_vals ! (length y_vals - 1);
             slope_right = (if x_BI \<noteq> x_IM then (y_BI - y_IM) / (x_BI - x_IM) else 0);
             x_ext_right = linspace x_BI (round_up_to_nearest_tenth x_BI + 0.1) 50
         in ((x_ext_left, map (\<lambda>x. slope_left * x + (y_TE - slope_left * x_TE)) x_ext_left),
             (x_ext_right, map (\<lambda>x. slope_right * x + (y_BI - slope_right * x_BI)) x_ext_right)))"
proof -
  have x0: "py_getitem x_vals 0 = Inr (x_vals ! 0)" and x1: "py_getitem x_vals 1 = Inr (x_vals ! 1)"
    using assms(1) by (auto simp: py_getitem_def)
  have y0: "py_getitem y_vals 0 = Inr (y_vals ! 0)" and y1: "py_getitem y_vals 1 = Inr (y_vals ! 1)"
    using assms(2) by (auto simp: py_getitem_def)
  have x2: "py_getitem x_vals (- 2) = Inr (x_vals ! (length x_vals - 2))"
    and x3: "py_getitem x_vals (- 1) = Inr (x_vals ! (length x_vals - 1))"
    using assms(1) py_getitem_neg [of 2 x_vals] py_getitem_neg [of 1 x_vals] by simp_all
  have y2: "py_getitem y_vals (- 2) = Inr (y_vals ! (length y_vals - 2))"
    and y3: "py_getitem y_vals (- 1) = Inr (y_vals ! (length y_vals - 1))"
    using assms(2) py_getitem_neg [of 2 y_vals] py_getitem_neg [of 1 y_vals] by simp_all
  show ?thesis
    unfolding extrapolate_FLC_dynamically_def x0 x1 x2 x3 y0 y1 y2 y3
    by (simp add: and_then_def py_div_def Let_def)
qed

subsection \<open>Construction\<close>

text \<open>
  Claim C1, as stated, at the input \<^verbatim>\<open>FLCPredictor(0, 1, 1, 1, 1)\<close>: the elongation is zero,
  and the constructor raises nothing. It returns the model below, every component of
  which is a float.
\<close>

theorem FLCPredictor_init_zero_A80:
  "FLCPredictor_init 0 1 1 1 1 None =
     Inr \<lparr>self_A80 = 0, self_r0 = 1, self_r45 = 1, self_r90 = 1, self_r = 1, self_t = 1,
          self_A80min = 0,
          self_TE = \<lparr>eps2 = PyFloat 0, eps1 = PyFloat 0\<rparr>,
          self_PS = \<lparr>eps2 = PyFloat 0, eps1 = PyFloat 0\<rparr>,
          self_IM = \<lparr>eps2 = PyFloat 0.135, eps1 = PyFloat 0.18\<rparr>,
          self_BI = \<lparr>eps2 = PyFloat 0.25, eps1 = PyFloat 0.25\<rparr>\<rparr>"
  by (simp add: FLCPredictor_init_def calculate_all_points_def calculate_IM_point_def
      calculate_BI_point_def py_div_def A80min_or_A80_def calculate_PS_point_def
      calculate_TE_point_def eps2_TE_def eps1_TE_def SVL_t_def term_A_def term_t_def
      eps1_IM_thin_def eps1_BI_thin_def Let_def)

text \<open>
  Claim C1, amended. The constructor checks no argument. Whatever the signs of the
  inputs, if neither divisor of the transition thickness is zero (the one of the IM
  point on \<open>A80\<close>, the one of the BI point on the effective \<open>A80min\<close>), construction
  returns a complete model that stores the inputs as given and \<open>r = (r0 + 2 * r45 + r90) / 4\<close>;
  with a negative \<open>A80\<close> both TE components of that model are complex numbers.
\<close>

theorem FLCPredictor_init_unvalidated:
  assumes "0.6 + 0.00285 * A80 \<noteq> 0"
    and "0.6 + 0.00285 * (case A80min of None \<Rightarrow> A80 | Some v \<Rightarrow> if v = 0 then A80 else v) \<noteq> 0"
  shows "\<exists>m. FLCPredictor_init A80 r0 r45 r90 t A80min = Inr m \<and>
           self_A80 m = A80 \<and> self_r0 m = r0 \<and> self_r45 m = r45 \<and> self_r90 m = r90 \<and>
           self_t m = t \<and> self_r m = (r0 + 2 * r45 + r90) / 4 \<and>
           (A80 < 0 \<longrightarrow> self_TE m = \<lparr>eps2 = PyComplex, eps1 = PyComplex\<rparr>)"
proof -
  have bi: "0.6 + 0.00285 * A80min_or_A80 A80min A80 \<noteq> 0"
    using assms(2) by (simp add: A80min_or_A80_def)
  show ?thesis
    unfolding FLCPredictor_init_Inr [OF assms(1) bi]
    by (simp add: calculate_TE_point_def)
qed

theorem FLCPredictor_init_unvalidated_witness:
  "0.6 + 0.00285 * (- 1 :: real) \<noteq> 0 \<and> (- 1 :: real) < 0 \<and>
   (\<exists>m. FLCPredictor_init (- 1) 0 (- 2) 1 0 None = Inr m \<and>
        self_A80 m = - 1 \<and> self_t m = 0 \<and> self_r m = - 3 / 4 \<and>
        self_TE m = \<lparr>eps2 = PyComplex, eps1 = PyComplex\<rparr>)"
  using FLCPredictor_init_unvalidated [of "- 1" None 0 "- 2" 1 0] by simp blast

subsection \<open>The point formulas on valid input\<close>

text \<open>
  Valid input, in the theorems below, is \<open>0 < A80\<close>, \<open>0 < r0\<close>, \<open>0 < r45\<close>, \<open>0 < r90\<close>,
  \<open>0 < t\<close>, and an \<open>A80min\<close> that is missing or not negative.
\<close>

text \<open>
  Claim C2. On valid input the constructor returns a model whose \<open>r\<close> is
  \<open>(r0 + 2 * r45 + r90) / 4\<close> and whose TE point is
  \<open>(eps2, eps1) = (- SVL * ratio / denom, (1 + ratio) * SVL / denom)\<close> with
  \<open>SVL = 0.0626 * A80 ^ 0.567 + (t - 1) * (0.12 - 0.0024 * A80)\<close>,
  \<open>ratio = 0.797 * r ^ 0.701\<close> and \<open>denom = sqrt (1 + ratio\<^sup>2)\<close>.
\<close>

theorem TE_point_formula:
  assumes "0 < A80" and "0 < r0" and "0 < r45" and "0 < r90" and "0 < t"
    and "case A80min of None \<Rightarrow> True | Some v \<Rightarrow> 0 \<le> v"
  shows "\<exists>m. FLCPredictor_init A80 r0 r45 r90 t A80min = Inr m \<and>
           self_r m = (r0 + 2 * r45 + r90) / 4 \<and>
           self_TE m =
             (let SVL = 0.0626 * A80 powr 0.567 + (t - 1) * (0.12 - 0.0024 * A80);
                  ratio = 0.797 * ((r0 + 2 * r45 + r90) / 4) powr 0.701;
                  denom = sqrt (1 + ratio\<^sup>2)
              in \<lparr>eps2 = PyFloat (- SVL * ratio / denom),
                  eps1 = PyFloat ((1 + ratio) * SVL / denom)\<rparr>)"
proof -
  have "0.6 + 0.00285 * A80 \<noteq> 0"
    using assms(1) by (simp add: divisor_nonzero)
  moreover have "0.6 + 0.00285 * A80min_or_A80 A80min A80 \<noteq> 0"
    using A80min_or_A80_nonneg [OF assms(1) assms(6)] by (simp add: divisor_nonzero)
  ultimately have init: "FLCPredictor_init A80 r0 r45 r90 t A80min =
     Inr \<lparr>self_A80 = A80, self_r0 = r0, self_r45 = r45, self_r90 = r90,
          self_r = (r0 + 2 * r45 + r90) / 4, self_t = t,
          self_A80min = (case A80min of None \<Rightarrow> A80 | Some v \<Rightarrow> v),
          self_TE = calculate_TE_point A80 ((r0 + 2 * r45 + r90) / 4) t,
          self_PS = calculate_PS_point A80 t,
          self_IM = projr (calculate_IM_point A80 t),
          self_BI = projr (calculate_BI_point A80 t A80min)\<rparr>"
    by (rule FLCPredictor_init_Inr)
  have "0 \<le> A80" and "0 \<le> (r0 + 2 * r45 + r90) / 4"
    using assms by simp_all
  then have "calculate_TE_point A80 ((r0 + 2 * r45 + r90) / 4) t =
     (let SVL = 0.0626 * A80 powr 0.567 + (t - 1) * (0.12 - 0.0024 * A80);
          ratio = 0.797 * ((r0 + 2 * r45 + r90) / 4) powr 0.701;
          denom = sqrt (1 + ratio\<^sup>2)
      in \<lparr>eps2 = PyFloat (- SVL * ratio / denom),
          eps1 = PyFloat ((1 + ratio) * SVL / denom)\<rparr>)"
    by (rule calculate_TE_point_eq)
  with init show ?thesis by simp
qed

theorem TE_point_formula_witness:
  "(0::real) < 1 \<and> (0::real) < 1 \<and> (0::real) < 2 \<and>
   (\<exists>m. FLCPredictor_init 1 1 1 1 2 None = Inr m \<and> self_r m = 1 \<and>
        self_TE m = \<lparr>eps2 = PyFloat (- (0.1802 * 0.797) / sqrt (1 + 0.797\<^sup>2)),
                     eps1 = PyFloat (1.797 * 0.1802 / sqrt (1 + 0.797\<^sup>2))\<rparr>)"
  using TE_point_formula [of 1 1 1 1 2 None] by (simp add: Let_def)

text \<open>
  Claim C3. On valid input the PS point of the constructed model has minor strain
  exactly zero and major strain \<open>0.0084 * A80 + 0.0017 * A80 * (t - 1)\<close>.
\<close>

theorem PS_point_formula:
  assumes "0 < A80" and "0 < r0" and "0 < r45" and "0 < r90" and "0 < t"
    and "case A80min of None \<Rightarrow> True | Some v \<Rightarrow> 0 \<le> v"
  shows "\<exists>m. FLCPredictor_init A80 r0 r45 r90 t A80min = Inr m \<and>
           eps2 (self_PS m) = PyFloat 0 \<and>
           eps1 (self_PS m) = PyFloat (0.0084 * A80 + 0.0017 * A80 * (t - 1))"
proof -
  have "0.6 + 0.00285 * A80 \<noteq> 0"
    using assms(1) by (simp add: divisor_nonzero)
  moreover have "0.6 + 0.00285 * A80min_or_A80 A80min A80 \<noteq> 0"
    using A80min_or_A80_nonneg [OF assms(1) assms(6)] by (simp add: divisor_nonzero)
  ultimately show ?thesis
    by (simp add: FLCPredictor_init_Inr calculate_PS_point_eq)
qed

theorem PS_point_formula_witness:
  "(0::real) < 40.8 \<and> (0::real) < 1.769 \<and> (0::real) < 1.661 \<and> (0::real) < 2.225 \<and> (0::real) < 1.2 \<and>
   (\<exists>m. FLCPredictor_init 40.8 1.769 1.661 2.225 1.2 None = Inr m \<and>
        eps2 (self_PS m) = PyFloat 0 \<and> eps1 (self_PS m) = PyFloat 0.356592)"
  using PS_point_formula [of "40.8" "1.769" "1.661" "2.225" "1.2" None] by simp

text \<open>
  Claim C4. On valid input the BI point of the constructed model has equal components,
  and its major strain is computed from the effective \<open>A80min\<close> (\<open>A80\<close> when the supplied
  \<open>A80min\<close> is missing or zero): with
  \<open>t_trans = 1.5 - (0.00215 * A80min) / (0.6 + 0.00285 * A80min)\<close> it is
  \<open>0.00215 * A80min + 0.25 + 0.00285 * A80min * t\<close> if \<open>t \<le> t_trans\<close>, the boundary
  included, and \<open>0.005 * A80min + 0.25\<close> otherwise.
\<close>

theorem BI_point_formula:
  assumes "0 < A80" and "0 < r0" and "0 < r45" and "0 < r90" and "0 < t"
    and "case A80min of None \<Rightarrow> True | Some v \<Rightarrow> 0 \<le> v"
  shows "\<exists>m. FLCPredictor_init A80 r0 r45 r90 t A80min = Inr m \<and>
           eps1 (self_BI m) = eps2 (self_BI m) \<and>
           eps1 (self_BI m) =
             (let a = (case A80min of None \<Rightarrow> A80 | Some v \<Rightarrow> if v = 0 then A80 else v);
                  t_tr = 1.5 - (0.00215 * a) / (0.6 + 0.00285 * a)
              in PyFloat (if t \<le> t_tr then 0.00215 * a + 0.25 + 0.00285 * a * t
                          else 0.005 * a + 0.25))"
proof -
  have im: "0.6 + 0.00285 * A80 \<noteq> 0"
    using assms(1) by (simp add: divisor_nonzero)
  have bi: "0.6 + 0.00285 * A80min_or_A80 A80min A80 \<noteq> 0"
    using A80min_or_A80_nonneg [OF assms(1) assms(6)] by (simp add: divisor_nonzero)
  show ?thesis
    unfolding FLCPredictor_init_Inr [OF im bi] calculate_BI_point_Inr [OF bi]
    by (simp add: Let_def A80min_or_A80_def t_trans_def eps1_BI_thin_def eps1_BI_1mm_def)
qed

theorem BI_point_formula_witness:
  "(0::real) < 40.8 \<and> (0::real) < 1.769 \<and> (0::real) < 1.661 \<and> (0::real) < 2.225 \<and>
   (0::real) < 1.2 \<and>
   (\<exists>m. FLCPredictor_init 40.8 1.769 1.661 2.225 1.2 (Some 0) = Inr m \<and>
        eps1 (self_BI m) = eps2 (self_BI m) \<and> eps1 (self_BI m) = PyFloat 0.477256)"
  using BI_point_formula [of "40.8" "1.769" "1.661" "2.225" "1.2" "Some 0"] by (simp add: Let_def)

text \<open>
  Claim C5. On valid input the IM point of the constructed model has
  \<open>eps2 = 0.75 * eps1\<close>, where \<open>eps1\<close> is computed from \<open>A80\<close>, whatever \<open>A80min\<close> is: with
  \<open>t_trans = 1.5 - (0.00215 * A80) / (0.6 + 0.00285 * A80)\<close> it is
  \<open>0.0062 * A80 + 0.18 + 0.0027 * A80 * (t - 1)\<close> if \<open>t \<le> t_trans\<close>, the boundary included,
  and \<open>0.0062 * A80 + 0.18\<close> otherwise.
\<close>

theorem IM_point_formula:
  assumes "0 < A80" and "0 < r0" and "0 < r45" and "0 < r90" and "0 < t"
    and "case A80min of None \<Rightarrow> True | Some v \<Rightarrow> 0 \<le> v"
  shows "\<exists>m. FLCPredictor_init A80 r0 r45 r90 t A80min = Inr m \<and>
           self_IM m =
             (let t_tr = 1.5 - (0.00215 * A80) / (0.6 + 0.00285 * A80);
                  e = (if t \<le> t_tr then 0.0062 * A80 + 0.18 + 0.0027 * A80 * (t - 1)
                       else 0.0062 * A80 + 0.18)
              in \<lparr>eps2 = PyFloat (0.75 * e), eps1 = PyFloat e\<rparr>)"
proof -
  have im: "0.6 + 0.00285 * A80 \<noteq> 0"
    using assms(1) by (simp add: divisor_nonzero)
  have bi: "0.6 + 0.00285 * A80min_or_A80 A80min A80 \<noteq> 0"
    using A80min_or_A80_nonneg [OF assms(1) assms(6)] by (simp add: divisor_nonzero)
  show ?thesis
    unfolding FLCPredictor_init_Inr [OF im bi] calculate_IM_point_Inr [OF im]
    by (simp add: Let_def t_trans_def eps1_IM_thin_def base_eps_IM1_def)
qed

theorem IM_point_formula_witness:
  "(0::real) < 40.8 \<and> (0::real) < 1.769 \<and> (0::real) < 1.661 \<and> (0::real) < 2.225 \<and>
   (0::real) < 1.2 \<and>
   (\<exists>m. FLCPredictor_init 40.8 1.769 1.661 2.225 1.2 (Some 30) = Inr m \<and>
        self_IM m = \<lparr>eps2 = PyFloat 0.341244, eps1 = PyFloat 0.454992\<rparr>)"
  using IM_point_formula [of "40.8" "1.769" "1.661" "2.225" "1.2" "Some 30"] by (simp add: Let_def)

text \<open>
  Claim C10. On valid input the TE point returned is \<open>(eps2_TE, eps1_TE)\<close>, and these two
  with the discarded third component \<open>eps3_TE\<close> sum to zero.
\<close>

theorem TE_incompressible:
  assumes "0 < A80" and "0 < r0" and "0 < r45" and "0 < r90" and "0 < t"
  shows "calculate_TE_point A80 ((r0 + 2 * r45 + r90) / 4) t =
           \<lparr>eps2 = PyFloat (eps2_TE A80 ((r0 + 2 * r45 + r90) / 4) t),
            eps1 = PyFloat (eps1_TE A80 ((r0 + 2 * r45 + r90) / 4) t)\<rparr> \<and>
         eps1_TE A80 ((r0 + 2 * r45 + r90) / 4) t + eps2_TE A80 ((r0 + 2 * r45 + r90) / 4) t
           + eps3_TE A80 ((r0 + 2 * r45 + r90) / 4) t = 0"
proof -
  let ?r = "(r0 + 2 * r45 + r90) / 4"
  have "\<not> (A80 < 0 \<or> ?r < 0)"
    using assms by simp
  then have pt: "calculate_TE_point A80 ?r t =
      \<lparr>eps2 = PyFloat (eps2_TE A80 ?r t), eps1 = PyFloat (eps1_TE A80 ?r t)\<rparr>"
    by (simp add: calculate_TE_point_def)
  have "denominator ?r \<noteq> 0"
    using denominator_pos [of ?r] by simp
  then have "eps1_TE A80 ?r t + eps2_TE A80 ?r t + eps3_TE A80 ?r t = 0"
    by (simp add: eps1_TE_def eps2_TE_def eps3_TE_def field_simps)
  with pt show ?thesis by simp
qed

theorem TE_incompressible_witness:
  "(0::real) < 1 \<and> (0::real) < 2 \<and>
   calculate_TE_point 1 1 2 = \<lparr>eps2 = PyFloat (eps2_TE 1 1 2), eps1 = PyFloat (eps1_TE 1 1 2)\<rparr> \<and>
   eps1_TE 1 1 2 + eps2_TE 1 1 2 + eps3_TE 1 1 2 = 0"
  using TE_incompressible [of 1 1 1 1 2] by simp

subsection \<open>The thickness transition\<close>

text \<open>
  Claim C6, as stated, at \<open>A80 = A80min = 40.8\<close> and \<open>t = t_trans\<close>: the two branches of the
  BI formula differ by more than 0.04, and so do the two branches of the IM formula.
\<close>

theorem branches_disagree_at_t_trans:
  "1 / 25 < \<bar>eps1_BI_thin 40.8 (t_trans 40.8) - eps1_BI_1mm 40.8\<bar> \<and>
   1 / 25 < \<bar>eps1_IM_thin 40.8 (t_trans 40.8) - base_eps_IM1 40.8\<bar>"
  by (simp add: eps1_BI_thin_def eps1_BI_1mm_def eps1_IM_thin_def base_eps_IM1_def t_trans_def)

text \<open>
  Claim C6, amended. At \<open>t = t_trans\<close> the thin-sheet branch exceeds the thick-sheet branch
  by exactly \<open>0.00285 * A80min * (t_trans - 1)\<close> for BI and by
  \<open>0.0027 * A80 * (t_trans - 1)\<close> for IM. For a positive elongation the two branches agree
  only where \<open>t_trans = 1\<close>, that is at the elongation \<open>12000 / 29\<close>.
\<close>

theorem branch_gap_at_t_trans:
  assumes "0 < a"
  shows "eps1_BI_thin a (t_trans a) - eps1_BI_1mm a = 0.00285 * a * (t_trans a - 1) \<and>
         eps1_IM_thin a (t_trans a) - base_eps_IM1 a = 0.0027 * a * (t_trans a - 1) \<and>
         (eps1_BI_thin a (t_trans a) = eps1_BI_1mm a \<longleftrightarrow> a = 12000 / 29) \<and>
         (eps1_IM_thin a (t_trans a) = base_eps_IM1 a \<longleftrightarrow> a = 12000 / 29)"
proof -
  have d: "0.6 + 0.00285 * a \<noteq> 0"
    using assms by (simp add: divisor_nonzero)
  have g1: "eps1_BI_thin a (t_trans a) - eps1_BI_1mm a = 0.00285 * a * (t_trans a - 1)"
    by (simp add: eps1_BI_thin_def eps1_BI_1mm_def algebra_simps)
  have g2: "eps1_IM_thin a (t_trans a) - base_eps_IM1 a = 0.0027 * a * (t_trans a - 1)"
    by (simp add: eps1_IM_thin_def base_eps_IM1_def)
  have t1: "t_trans a = 1 \<longleftrightarrow> a = 12000 / 29"
    using d by (simp add: t_trans_def field_simps) 
  have e1: "eps1_BI_thin a (t_trans a) = eps1_BI_1mm a \<longleftrightarrow> a = 12000 / 29"
    using g1 t1 assms by auto
  have e2: "eps1_IM_thin a (t_trans a) = base_eps_IM1 a \<longleftrightarrow> a = 12000 / 29"
    using g2 t1 assms by auto
  show ?thesis using g1 g2 e1 e2 by blast
qed

theorem branch_gap_at_t_trans_witness:
  "(0::real) < 12000 / 29 \<and>
   eps1_BI_thin (12000 / 29) (t_trans (12000 / 29)) = eps1_BI_1mm (12000 / 29) \<and>
   eps1_IM_thin (12000 / 29) (t_trans (12000 / 29)) = base_eps_IM1 (12000 / 29)"
  using branch_gap_at_t_trans [of "12000 / 29"] by simp

subsection \<open>Extrapolation\<close>

text \<open>
  Claim C7. For four points, the extrapolator returns two segments. The left one has 50
  x-samples, evenly spaced, from \<open>floor (10 * x_TE) / 10 - 0.1\<close> to \<open>x_TE\<close>; the right one
  has 50 x-samples, evenly spaced, from \<open>x_BI\<close> to \<open>ceil (10 * x_BI) / 10 + 0.1\<close>. Every y
  is \<open>slope * x + intercept\<close> on the line of the end segment: through TE and PS on the
  left, through IM and BI on the right.
\<close>

theorem extrapolation_domain_and_sampling:
  assumes "length x_vals = 4" and "length y_vals = 4"
  shows "\<exists>x_ext_left y_ext_left x_ext_right y_ext_right.
     extrapolate_FLC_dynamically x_vals y_vals =
       Inr ((x_ext_left, y_ext_left), (x_ext_right, y_ext_right)) \<and>
     length x_ext_left = 50 \<and>
     hd x_ext_left = real_of_int \<lfloor>10 * (x_vals ! 0)\<rfloor> / 10 - 0.1 \<and>
     last x_ext_left = x_vals ! 0 \<and>
     (\<forall>i<49. x_ext_left ! Suc i - x_ext_left ! i = (last x_ext_left - hd x_ext_left) / 49) \<and>
     y_ext_left =
       (let slope = (if x_vals ! 1 \<noteq> x_vals ! 0
                     then (y_vals ! 1 - y_vals ! 0) / (x_vals ! 1 - x_vals ! 0) else 0);
            intercept = y_vals ! 0 - slope * x_vals ! 0
        in map (\<lambda>x. slope * x + intercept) x_ext_left) \<and>
     length x_ext_right = 50 \<and>
     hd x_ext_right = x_vals ! 3 \<and>
     last x_ext_right = real_of_int \<lceil>10 * (x_vals ! 3)\<rceil> / 10 + 0.1 \<and>
     (\<forall>i<49. x_ext_right ! Suc i - x_ext_right ! i = (last x_ext_right - hd x_ext_right) / 49) \<and>
     y_ext_right =
       (let slope = (if x_vals ! 3 \<noteq> x_vals ! 2
                     then (y_vals ! 3 - y_vals ! 2) / (x_vals ! 3 - x_vals ! 2) else 0);
            intercept = y_vals ! 3 - slope * x_vals ! 3
        in map (\<lambda>x. slope * x + intercept) x_ext_right)"
proof -
  have len: "2 \<le> length x_vals" "2 \<le> length y_vals"
    using assms by simp_all
  have fl: "round_down_to_nearest_tenth (x_vals ! 0) = real_of_int \<lfloor>10 * (x_vals ! 0)\<rfloor> / 10"
    by (simp add: round_down_to_nearest_tenth_def mult.commute)
  have ce: "round_up_to_nearest_tenth (x_vals ! 3) = real_of_int \<lceil>10 * (x_vals ! 3)\<rceil> / 10"
    by (simp add: round_up_to_nearest_tenth_def mult.commute)
  have stepl: "\<forall>i<49. linspace a b 50 ! Suc i - linspace a b 50 ! i
      = (last (linspace a b 50) - hd (linspace a b 50)) / 49" for a b
    by (simp add: step_linspace hd_linspace last_linspace)
  show ?thesis
    unfolding extrapolate_FLC_dynamically_Inr [OF len] assms Let_def
    using stepl
    by (simp add: length_linspace hd_linspace last_linspace fl ce)
qed

theorem extrapolation_domain_and_sampling_witness:
  "length [- 0.25, 0, 0.3, 0.42 :: real] = 4 \<and> length [0.5, 0.35, 0.45, 0.47 :: real] = 4 \<and>
   (\<exists>x_ext_left y_ext_left x_ext_right y_ext_right.
     extrapolate_FLC_dynamically [- 0.25, 0, 0.3, 0.42] [0.5, 0.35, 0.45, 0.47] =
       Inr ((x_ext_left, y_ext_left), (x_ext_right, y_ext_right)) \<and>
     length x_ext_left = 50 \<and> hd x_ext_left = - 0.4 \<and> last x_ext_left = - 0.25 \<and>
     length x_ext_right = 50 \<and> hd x_ext_right = 0.42 \<and> last x_ext_right = 0.6)"
  using extrapolation_domain_and_sampling [of "[- 0.25, 0, 0.3, 0.42]" "[0.5, 0.35, 0.45, 0.47]"]
  by (simp add: Let_def) blast

text \<open>
  Claim C8. For at least two points, the extrapolator raises no error and returns both
  segments, sampled on their usual domains, also where the two x-coordinates of an end
  segment coincide. There the quotient of the slope would raise a division by zero; it
  is not evaluated, the slope is 0, and every y of that segment is the y of the outer
  point (TE on the left, BI on the right).
\<close>

theorem degenerate_geometry_flat:
  assumes "2 \<le> length x_vals" and "2 \<le> length y_vals"
  shows "\<exists>x_ext_left y_ext_left x_ext_right y_ext_right.
     extrapolate_FLC_dynamically x_vals y_vals =
       Inr ((x_ext_left, y_ext_left), (x_ext_right, y_ext_right)) \<and>
     x_ext_left =
       linspace (real_of_int \<lfloor>10 * (x_vals ! 0)\<rfloor> / 10 - 0.1) (x_vals ! 0) 50 \<and>
     x_ext_right =
       linspace (x_vals ! (length x_vals - 1))
         (real_of_int \<lceil>10 * (x_vals ! (length x_vals - 1))\<rceil> / 10 + 0.1) 50 \<and>
     (x_vals ! 1 = x_vals ! 0 \<longrightarrow>
        py_div (y_vals ! 1 - y_vals ! 0) (x_vals ! 1 - x_vals ! 0) = Inl ZeroDivisionError \<and>
        y_ext_left = map (\<lambda>x. 0 * x + y_vals ! 0) x_ext_left \<and>
        y_ext_left = replicate 50 (y_vals ! 0)) \<and>
     (x_vals ! (length x_vals - 1) = x_vals ! (length x_vals - 2) \<longrightarrow>
        py_div (y_vals ! (length y_vals - 1) - y_vals ! (length y_vals - 2))
          (x_vals ! (length x_vals - 1) - x_vals ! (length x_vals - 2)) = Inl ZeroDivisionError \<and>
        y_ext_right = map (\<lambda>x. 0 * x + y_vals ! (length y_vals - 1)) x_ext_right \<and>
        y_ext_right = replicate 50 (y_vals ! (length y_vals - 1)))"
proof -
  have fl: "round_down_to_nearest_tenth z = real_of_int \<lfloor>10 * z\<rfloor> / 10" for z
    by (simp add: round_down_to_nearest_tenth_def mult.commute)
  have ce: "round_up_to_nearest_tenth z = real_of_int \<lceil>10 * z\<rceil> / 10" for z
    by (simp add: round_up_to_nearest_tenth_def mult.commute)
  show ?thesis
    unfolding extrapolate_FLC_dynamically_Inr [OF assms] Let_def fl ce
    by (simp add: map_replicate_const length_linspace py_div_def)
qed

theorem degenerate_geometry_flat_witness:
  "2 \<le> length [0.1, 0.1, 0.3, 0.3 :: real] \<and> 2 \<le> length [0.5, 0.35, 0.45, 0.47 :: real] \<and>
   [0.1, 0.1, 0.3, 0.3 :: real] ! 1 = [0.1, 0.1, 0.3, 0.3] ! 0 \<and>
   [0.1, 0.1, 0.3, 0.3 :: real] ! 3 = [0.1, 0.1, 0.3, 0.3] ! 2 \<and>
   extrapolate_FLC_dynamically [0.1, 0.1, 0.3, 0.3] [0.5, 0.35, 0.45, 0.47] =
     Inr ((linspace 0 0.1 50, replicate 50 0.5), (linspace 0.3 0.4 50, replicate 50 0.47))"
  using degenerate_geometry_flat [of "[0.1, 0.1, 0.3, 0.3]" "[0.5, 0.35, 0.45, 0.47]"]
  by simp

subsection \<open>Point retrieval\<close>

text \<open>
  Claim C9. Retrieving the points leaves the model as it was, a second retrieval returns
  what the first did, and the result lists the pairs \<open>(eps2, eps1)\<close> of TE, PS, IM, BI in
  this order.
\<close>

theorem get_FLC_points_idempotent:
  "snd (get_FLC_points m) = m \<and>
   fst (get_FLC_points (snd (get_FLC_points m))) = fst (get_FLC_points m) \<and>
   fst (get_FLC_points m) =
     [(''TE'', (eps2 (self_TE m), eps1 (self_TE m))),
      (''PS'', (eps2 (self_PS m), eps1 (self_PS m))),
      (''IM'', (eps2 (self_IM m), eps1 (self_IM m))),
      (''BI'', (eps2 (self_BI m), eps1 (self_BI m)))]"
  by (simp add: get_FLC_points_def)

end
